theory Spec2Isabelle
  imports Main "HOL-Library.AList"
begin

section \<open>Values, exceptions and the JSON library\<close>

text \<open>
  A JSON value, as it travels in a request or response body. An object is the list of its
  members; a member is looked up by name (\<open>map_of\<close>), and the order of the members
  carries no meaning (Python 2 dictionaries are unordered). Numbers are the integers:
  fractions are outside the model.
\<close>

datatype json =
    JNull
  | JBool bool
  | JInt int
  | JStr string
  | JArr "json list"
  | JObj "(string \<times> json) list"

text \<open>
  A Python value, as handlers, the authorization hook and the dispatcher pass it around.
  \<open>PStr\<close> is a string that JSON can carry, given by its characters (a \<open>unicode\<close>, or
  a byte string of ASCII characters; byte strings with multi-byte UTF-8 sequences are
  outside the model); \<open>PBytes\<close> is a byte string that does not decode as UTF-8, on which
  \<open>simplejson.dumps\<close> raises \<open>UnicodeDecodeError\<close>. \<open>PObj\<close> is an object of no
  special protocol: it is true, hashable, not iterable, not subscriptable and not JSON
  serializable. Dictionaries are keyed by strings.
\<close>

datatype pyval =
    PNone
  | PBool bool
  | PInt int
  | PStr string
  | PBytes string
  | PList "pyval list"
  | PTuple "pyval list"
  | PDict "(string \<times> pyval) list"
  | PObj nat

text \<open>
  What \<open>str()\<close> of an exception returns: a text, or a byte string that does not decode
  as UTF-8 (an operating system message in Latin-1, say).
\<close>

datatype pystr =
    Text string
  | Bytes string

text \<open>
  An exception raised by a callable supplied from outside (a handler, the authorization
  hook, the transport), by the three things the dispatcher reads of it: whether its class
  derives from \<open>Exception\<close> (what \<open>except Exception\<close> tests; \<open>SystemExit\<close> and
  \<open>KeyboardInterrupt\<close> do not), the \<open>__name__\<close> of its class, and what \<open>str()\<close> of
  the object does: it raises in its turn (\<open>Inl\<close>, as \<open>str()\<close> of an exception with a
  non-ASCII \<open>unicode\<close> message does), or it returns a string (\<open>Inr\<close>).
\<close>

datatype pyexc =
    Exc (is_Exception: bool) (type_name: string) (str_of: "pyexc + pystr")

text \<open>What a call of such a callable does: it returns a value, or it raises.\<close>

datatype 'a outcome =
    Returns 'a
  | Raises pyexc

text \<open>
  The exceptions that leave a function of the module. The first six are raised by the
  interpreter, by the JSON library or by the module itself; \<open>Raised\<close> is an exception of a
  supplied callable passing through.
\<close>

datatype exn =
    ValueError
  | KeyError string
  | TypeError
  | UnicodeDecodeError
  | UnboundLocalError string
  | JsonRpcError string
  | Raised pyexc

text \<open>
  The bytes of an HTTP body, taken by what \<open>simplejson.loads\<close> makes of them: they do
  not decode, or they decode to a JSON value.
\<close>

datatype body =
    Undecodable
  | Document json

text \<open>The inbound request object (the context handed to handlers and to the hook).\<close>

record request =
  http_method :: string
  raw_post_data :: body
  full_path :: string

text \<open>\<open>simplejson.loads\<close> on a decodable body: the Python value of a JSON value.\<close>

fun loads :: "json \<Rightarrow> pyval" where
  "loads JNull = PNone"
| "loads (JBool b) = PBool b"
| "loads (JInt i) = PInt i"
| "loads (JStr s) = PStr s"
| "loads (JArr js) = PList (map loads js)"
| "loads (JObj kvs) = PDict (map (\<lambda>(k, v). (k, loads v)) kvs)"

text \<open>
  \<open>simplejson.dumps\<close>: the JSON value of a Python value, \<open>None\<close> where the library
  raises (the value holds an object that is not JSON serializable, or a byte string that
  does not decode). Lists and tuples both become arrays.
\<close>

fun dumps :: "pyval \<Rightarrow> json option" where
  "dumps PNone = Some JNull"
| "dumps (PBool b) = Some (JBool b)"
| "dumps (PInt i) = Some (JInt i)"
| "dumps (PStr s) = Some (JStr s)"
| "dumps (PBytes s) = None"
| "dumps (PList xs) = map_option JArr (those (map dumps xs))"
| "dumps (PTuple xs) = map_option JArr (those (map dumps xs))"
| "dumps (PDict kvs) =
     map_option JObj (those (map (\<lambda>(k, v). map_option (Pair k) (dumps v)) kvs))"
| "dumps (PObj n) = None"

text \<open>
  The exception \<open>simplejson.dumps\<close> raises where it fails, which is that of the first
  element it cannot encode (in a dictionary, the first in the order of the list):
  \<open>UnicodeDecodeError\<close> for a byte string that does not decode, \<open>TypeError\<close> for an
  object.
\<close>

fun dumps_error :: "pyval \<Rightarrow> exn"
  and dumps_error_list :: "pyval list \<Rightarrow> exn"
  and dumps_error_items :: "(string \<times> pyval) list \<Rightarrow> exn" where
  "dumps_error (PBytes s) = UnicodeDecodeError"
| "dumps_error (PList xs) = dumps_error_list xs"
| "dumps_error (PTuple xs) = dumps_error_list xs"
| "dumps_error (PDict kvs) = dumps_error_items kvs"
| "dumps_error v = TypeError"
| "dumps_error_list [] = TypeError"
| "dumps_error_list (x # xs) = (if dumps x = None then dumps_error x else dumps_error_list xs)"
| "dumps_error_items [] = TypeError"
| "dumps_error_items ((k, v) # kvs) = (if dumps v = None then dumps_error v else dumps_error_items kvs)"

definition simplejson_loads :: "body \<Rightarrow> exn + pyval" where
  "simplejson_loads raw = (case raw of Undecodable \<Rightarrow> Inl ValueError | Document j \<Rightarrow> Inr (loads j))"

section \<open>The interpreter's operations the module relies on\<close>

text \<open>Truth value testing (\<open>if x\<close>, \<open>not x\<close>).\<close>

fun truthy :: "pyval \<Rightarrow> bool" where
  "truthy PNone = False"
| "truthy (PBool b) = b"
| "truthy (PInt i) = (i \<noteq> 0)"
| "truthy (PStr s) = (s \<noteq> [])"
| "truthy (PBytes s) = (s \<noteq> [])"
| "truthy (PList xs) = (xs \<noteq> [])"
| "truthy (PTuple xs) = (xs \<noteq> [])"
| "truthy (PDict kvs) = (kvs \<noteq> [])"
| "truthy (PObj n) = True"

text \<open>Whether a value can be a dictionary key: lists and dictionaries cannot.\<close>

fun hashable :: "pyval \<Rightarrow> bool" where
  "hashable (PList xs) = False"
| "hashable (PDict kvs) = False"
| "hashable (PTuple xs) = list_all hashable xs"
| "hashable v = True"

text \<open>
  Iteration (\<open>for x in v\<close>, tuple unpacking): the elements, or \<open>None\<close> where the value
  is not iterable (\<open>TypeError\<close>). A string yields its characters, a dictionary its keys.
  A byte string yields its bytes, of which those below 128 are ASCII characters.
\<close>

fun iterate :: "pyval \<Rightarrow> pyval list option" where
  "iterate (PList xs) = Some xs"
| "iterate (PTuple xs) = Some xs"
| "iterate (PStr s) = Some (map (\<lambda>c. PStr [c]) s)"
| "iterate (PBytes s) = Some (map (\<lambda>c. if of_char c < (128::nat) then PStr [c] else PBytes [c]) s)"
| "iterate (PDict kvs) = Some (map PStr (remdups (map fst kvs)))"
| "iterate v = None"

text \<open>
  Subscription by a string key, \<open>v['key']\<close>: a dictionary gives the value or raises
  \<open>KeyError\<close>; every other value raises \<open>TypeError\<close>.
\<close>

fun getitem :: "pyval \<Rightarrow> string \<Rightarrow> exn + pyval" where
  "getitem (PDict kvs) k = (case map_of kvs k of None \<Rightarrow> Inl (KeyError k) | Some v \<Rightarrow> Inr v)"
| "getitem v k = Inl TypeError"

text \<open>
  The conversion \<open>%s\<close> of one value. A string is inserted as it is; the text of any other
  value is the interpreter's \<open>str()\<close>, a parameter \<open>str\<close> of the model.
\<close>

definition percent_s :: "(pyval \<Rightarrow> string) \<Rightarrow> pyval \<Rightarrow> string" where
  "percent_s str v = (case v of PStr s \<Rightarrow> s | PBytes s \<Rightarrow> s | _ \<Rightarrow> str v)"

text \<open>
  A string with one \<open>%s\<close>, formatted with one value: with bytes that do not decode
  inserted, the result does not decode either.
\<close>

definition formatted :: "(pyval \<Rightarrow> string) \<Rightarrow> string \<Rightarrow> pyval \<Rightarrow> string \<Rightarrow> pyval" where
  "formatted str before v after =
     (case v of
        PBytes s \<Rightarrow> PBytes (before @ s @ after)
      | _ \<Rightarrow> PStr (before @ percent_s str v @ after))"

text \<open>
  \<open>'method "%s" does not exist' % method_name\<close>. A tuple on the right of \<open>%\<close> is the
  argument list: one element fills the \<open>%s\<close>, any other number raises \<open>TypeError\<close>.
\<close>

definition does_not_exist :: "(pyval \<Rightarrow> string) \<Rightarrow> pyval \<Rightarrow> exn + pyval" where
  "does_not_exist str method_name =
     (case method_name of
        PTuple [x] \<Rightarrow> Inr (formatted str ''method \"'' x ''\" does not exist'')
      | PTuple xs \<Rightarrow> Inl TypeError
      | _ \<Rightarrow> Inr (formatted str ''method \"'' method_name ''\" does not exist''))"

text \<open>
  Lines 85 and 86, \<open>'%s: %s' % (etype.__name__, evalue)\<close>: the conversion of \<open>evalue\<close>
  is \<open>str()\<close> of the exception, which may raise; the result is bytes when that string is.
\<close>

definition exception_message :: "pyexc \<Rightarrow> exn + pyval" where
  "exception_message exc =
     (case str_of exc of
        Inl e \<Rightarrow> Inl (Raised e)
      | Inr (Text evalue) \<Rightarrow> Inr (PStr (type_name exc @ '': '' @ evalue))
      | Inr (Bytes evalue) \<Rightarrow> Inr (PBytes (type_name exc @ '': '' @ evalue)))"

text \<open>
  Reading a local variable: a name assigned somewhere in the function is local throughout
  it, and reading it before any assignment raises \<open>UnboundLocalError\<close>.
\<close>

definition read_local :: "string \<Rightarrow> 'a option \<Rightarrow> exn + 'a" where
  "read_local name slot = (case slot of None \<Rightarrow> Inl (UnboundLocalError name) | Some v \<Rightarrow> Inr v)"

section \<open>ServiceBase\<close>

text \<open>
  A value stored in the method registry, as the dispatcher observes it: its truth value
  (\<open>not method\<close>), what the call \<open>method(request, *params)\<close> does given the request
  and the value of \<open>params\<close> (unpacking the arguments is part of the call), and what
  \<open>inspect.getargspec(method).args\<close> is (\<open>None\<close> where \<open>getargspec\<close> raises
  \<open>TypeError\<close>, as it does on anything that is not a Python function or method).
\<close>

record pyobject =
  is_true :: bool
  invoke :: "request \<Rightarrow> pyval \<Rightarrow> pyval outcome"
  argspec :: "string list option"

text \<open>The object \<open>None\<close>.\<close>

definition py_None :: pyobject where
  \<open>py_None = \<lparr> is_true = False,
               invoke = (\<lambda>request params.
                 Raises (Exc True ''TypeError'' (Inr (Text '''NoneType' object is not callable'')))),
               argspec = None \<rparr>\<close>

record service =
  methods :: "(string \<times> pyobject) list"
  auth_func :: "(request \<Rightarrow> pyval \<Rightarrow> pyval \<Rightarrow> pyval outcome) option"
  show_exceptions :: bool

text \<open>\<open>ServiceBase.__init__(auth_func=None, show_exceptions=False)\<close>\<close>

definition ServiceBase :: "(request \<Rightarrow> pyval \<Rightarrow> pyval \<Rightarrow> pyval outcome) option \<Rightarrow> bool \<Rightarrow> service" where
  "ServiceBase af se = \<lparr> methods = [], auth_func = af, show_exceptions = se \<rparr>"

definition to_json :: "pyval \<Rightarrow> exn + json" where
  "to_json data = (case dumps data of None \<Rightarrow> Inl (dumps_error data) | Some j \<Rightarrow> Inr j)"

definition get_response :: "pyval \<Rightarrow> pyval \<Rightarrow> pyval" where
  "get_response i result =
     PDict [(''version'', PStr ''1.1''), (''id'', i), (''result'', result), (''error'', PNone)]"

definition get_error :: "pyval \<Rightarrow> pyval \<Rightarrow> pyval \<Rightarrow> pyval" where
  "get_error i code message =
     PDict [(''id'', i), (''version'', PStr ''1.1''),
            (''error'', PDict [(''name'', PStr ''JsonRpcError''), (''code'', code), (''message'', message)])]"

definition add_method :: "service \<Rightarrow> string \<Rightarrow> pyobject \<Rightarrow> service" where
  "add_method svc method_name m = svc\<lparr> methods := AList.update method_name m (methods svc) \<rparr>"

text \<open>
  \<open>auth, msg = auth\<close>: the value unpacks when it iterates to exactly two elements;
  otherwise the statement raises \<open>ValueError\<close> or \<open>TypeError\<close>, both of which
  \<open>is_authorized\<close> catches.
\<close>

definition unpack2 :: "pyval \<Rightarrow> (pyval \<times> pyval) option" where
  "unpack2 v = (case iterate v of Some [a, b] \<Rightarrow> Some (a, b) | _ \<Rightarrow> None)"

definition is_authorized ::
    "(pyval \<Rightarrow> string) \<Rightarrow> service \<Rightarrow> request \<Rightarrow> pyval \<Rightarrow> pyval \<Rightarrow> exn + (pyval \<times> pyval)" where
  "is_authorized str svc request method_name params =
     (case auth_func svc of
        Some f \<Rightarrow>
          (case f request method_name params of
             Raises exc \<Rightarrow> Inl (Raised exc)
           | Returns auth \<Rightarrow>
               (case unpack2 auth of
                  Some (auth', msg) \<Rightarrow> Inr (auth', msg)
                | None \<Rightarrow>
                    (case does_not_exist str method_name of
                       Inl e \<Rightarrow> Inl e
                     | Inr msg \<Rightarrow> Inr (auth, msg))))
      | None \<Rightarrow> Inr (PBool True, PStr ''''))"

definition list_methods :: "service \<Rightarrow> string list" where
  "list_methods svc = map fst (methods svc)"

text \<open>
  \<open>self.methods[method_name]\<close>, with \<open>KeyError\<close> turned into \<open>None\<close>. An unhashable
  key raises \<open>TypeError\<close>, which is not caught. The registry is keyed by strings, so
  only a string finds an entry.
\<close>

definition get_method :: "service \<Rightarrow> pyval \<Rightarrow> exn + pyobject" where
  "get_method svc method_name =
     (if \<not> hashable method_name then Inl TypeError
      else case method_name of
             PStr s \<Rightarrow> (case map_of (methods svc) s of Some m \<Rightarrow> Inr m | None \<Rightarrow> Inr py_None)
           | _ \<Rightarrow> Inr py_None)"

text \<open>
  Lines 62 and 63 of \<open>process_request\<close>, the body of its first \<open>try\<close>: decode, then
  read the three fields. The assignment binds \<open>id\<close>, \<open>method_name\<close> and \<open>params\<close>
  together, after all three reads have succeeded.
\<close>

definition read_fields :: "body \<Rightarrow> exn + (pyval \<times> pyval \<times> pyval)" where
  "read_fields raw =
     (case simplejson_loads raw of
        Inl e \<Rightarrow> Inl e
      | Inr data \<Rightarrow>
          (case getitem data ''id'' of
             Inl e \<Rightarrow> Inl e
           | Inr i \<Rightarrow>
               (case getitem data ''method'' of
                  Inl e \<Rightarrow> Inl e
                | Inr method_name \<Rightarrow>
                    (case getitem data ''params'' of
                       Inl e \<Rightarrow> Inl e
                     | Inr params \<Rightarrow> Inr (i, method_name, params)))))"

text \<open>
  \<open>process_request\<close>. In the handler of the first \<open>try\<close> the local \<open>id\<close> has not been
  assigned (the assignment of line 63 did not happen), so it is read from an empty slot.
  The second \<open>try\<close> catches \<open>Exception\<close> only; an exception raised while its handler
  formats the message (line 86) is caught by nothing, and neither is one raised by the
  \<open>to_json\<close> of line 90.
\<close>

definition process_request :: "(pyval \<Rightarrow> string) \<Rightarrow> service \<Rightarrow> request \<Rightarrow> exn + json" where
  "process_request str svc request =
     (case read_fields (raw_post_data request) of
        Inl e \<Rightarrow>
          (case read_local ''id'' None of
             Inl e' \<Rightarrow> Inl e'
           | Inr i \<Rightarrow> to_json (get_error i (PInt 100) (PStr ''Malformed JSON-RPC 1.1 request'')))
      | Inr (i, method_name, params) \<Rightarrow>
          (case is_authorized str svc request method_name params of
             Inl e \<Rightarrow> Inl e
           | Inr (auth, auth_msg) \<Rightarrow>
               if \<not> truthy auth then to_json (get_error i (PInt 100) auth_msg)
               else
                 (case get_method svc method_name of
                    Inl e \<Rightarrow> Inl e
                  | Inr m \<Rightarrow>
                      if \<not> is_true m then
                        (case does_not_exist str method_name of
                           Inl e \<Rightarrow> Inl e
                         | Inr msg \<Rightarrow> to_json (get_error i (PInt 100) msg))
                      else
                        (case invoke m request params of
                           Returns result \<Rightarrow> to_json (get_response i result)
                         | Raises exc \<Rightarrow>
                             if is_Exception exc then
                               if show_exceptions svc
                               then (case exception_message exc of
                                       Inl e \<Rightarrow> Inl e
                                     | Inr msg \<Rightarrow> to_json (get_error i (PInt 100) msg))
                               else to_json (get_error i (PInt 100) (PStr ''An error occurred''))
                             else Inl (Raised exc)))))"

text \<open>
  The loop of \<open>get_smd\<close> over the registered names: one description per name, in the
  registry's order; \<open>getargspec\<close> raising ends it.
\<close>

fun smd_methods :: "service \<Rightarrow> string list \<Rightarrow> exn + pyval list" where
  "smd_methods svc [] = Inr []"
| "smd_methods svc (method_name # rest) =
     (case get_method svc (PStr method_name) of
        Inl e \<Rightarrow> Inl e
      | Inr m \<Rightarrow>
          (case argspec m of
             None \<Rightarrow> Inl TypeError
           | Some args \<Rightarrow>
               (case smd_methods svc rest of
                  Inl e \<Rightarrow> Inl e
                | Inr entries \<Rightarrow>
                    Inr (PDict [(''name'', PStr method_name),
                                (''parameters'',
                                 PList (map (\<lambda>val. PDict [(''name'', PStr val)])
                                          (filter (\<lambda>val. val \<notin> set [''self'', ''request'']) args)))]
                         # entries))))"

definition get_smd :: "service \<Rightarrow> string \<Rightarrow> exn + json" where
  "get_smd svc url =
     (case smd_methods svc (list_methods svc) of
        Inl e \<Rightarrow> Inl e
      | Inr entries \<Rightarrow>
          to_json (PDict [(''serviceType'', PStr ''JSON-RPC''), (''serviceURL'', PStr url),
                          (''methods'', PList entries)]))"

section \<open>ServiceProxy\<close>

record proxy =
  smd_url :: string
  service_url :: string
  smd :: pyval
  proxy_methods :: "pyval list"
  call_id :: int

definition ServiceProxy :: "string \<Rightarrow> proxy" where
  "ServiceProxy url =
     \<lparr> smd_url = url, service_url = url, smd = PDict [], proxy_methods = [], call_id = 0 \<rparr>"

definition from_json :: "body \<Rightarrow> exn + pyval" where
  "from_json data = simplejson_loads data"

text \<open>\<open>[method['name'] for method in ...]\<close>\<close>

fun method_names :: "pyval list \<Rightarrow> exn + pyval list" where
  "method_names [] = Inr []"
| "method_names (m # ms) =
     (case getitem m ''name'' of
        Inl e \<Rightarrow> Inl e
      | Inr n \<Rightarrow> (case method_names ms of Inl e \<Rightarrow> Inl e | Inr ns \<Rightarrow> Inr (n # ns)))"

text \<open>
  The proxy's \<open>get_smd\<close>. \<open>urlopen\<close> is the transport: given a URL it returns a body
  or raises. The proxy is returned as the call leaves it; \<open>self.smd\<close> is assigned before
  the method names are read.
\<close>

definition proxy_get_smd ::
    "proxy \<Rightarrow> string option \<Rightarrow> (string \<Rightarrow> body outcome) \<Rightarrow> (exn + unit) \<times> proxy" where
  "proxy_get_smd p url urlopen =
     (case urlopen (case url of Some u \<Rightarrow> (if u \<noteq> [] then u else smd_url p) | None \<Rightarrow> smd_url p) of
        Raises exc \<Rightarrow> (Inl (Raised exc), p)
      | Returns data \<Rightarrow>
          (case from_json data of
             Inl e \<Rightarrow> (Inl e, p)
           | Inr s \<Rightarrow>
               (let p' = p\<lparr> smd := s \<rparr> in
                case getitem s ''methods'' of
                  Inl e \<Rightarrow> (Inl e, p')
                | Inr ms \<Rightarrow>
                    (case iterate ms of
                       None \<Rightarrow> (Inl TypeError, p')
                     | Some xs \<Rightarrow>
                         (case method_names xs of
                            Inl e \<Rightarrow> (Inl e, p')
                          | Inr ns \<Rightarrow> (Inr (), p'\<lparr> proxy_methods := proxy_methods p' @ ns \<rparr>))))))"

text \<open>
  \<open>call_method\<close>. \<open>post\<close> is the transport for this call: given the URL and the
  request envelope it returns the response body or raises. The result is what the call
  returns or raises, the proxy as the call leaves it, and the envelope handed to the
  transport (\<open>None\<close> when serialization failed and nothing was sent). The \<open>print\<close> of
  the envelope is not modelled.
\<close>

definition call_method ::
    "proxy \<Rightarrow> pyval \<Rightarrow> pyval \<Rightarrow> (string \<Rightarrow> json \<Rightarrow> body outcome) \<Rightarrow> (exn + pyval) \<times> proxy \<times> json option" where
  "call_method p method_name params post =
     (let p' = p\<lparr> call_id := call_id p + 1 \<rparr>;
          data = PDict [(''method'', method_name), (''params'', params), (''id'', PInt (call_id p'))]
      in case to_json data of
           Inl e \<Rightarrow> (Inl e, p', None)
         | Inr j \<Rightarrow>
             (case post (service_url p') j of
                Raises exc \<Rightarrow> (Inl (Raised exc), p', Some j)
              | Returns data' \<Rightarrow>
                  (case from_json data' of
                     Inl e \<Rightarrow> (Inl e, p', Some j)
                   | Inr resp \<Rightarrow> (Inr resp, p', Some j))))"

text \<open>
  Lines 182 to 186, what \<open>wrapped\<close> does with the parsed response: the \<open>result\<close>
  member if there is one; on \<open>KeyError\<close> the error's name and message, raised as
  \<open>JsonRpcError\<close>. Any other exception passes through.
\<close>

definition unwrap :: "(pyval \<Rightarrow> string) \<Rightarrow> pyval \<Rightarrow> exn + pyval" where
  "unwrap str resp =
     (case getitem resp ''result'' of
        Inr result \<Rightarrow> Inr result
      | Inl (KeyError k) \<Rightarrow>
          (case getitem resp ''error'' of
             Inl e \<Rightarrow> Inl e
           | Inr err \<Rightarrow>
               (case getitem err ''name'' of
                  Inl e \<Rightarrow> Inl e
                | Inr err_name \<Rightarrow>
                    (case getitem err ''message'' of
                       Inl e \<Rightarrow> Inl e
                     | Inr err_msg \<Rightarrow>
                         Inl (JsonRpcError (percent_s str err_name @ '': '' @ percent_s str err_msg)))))
      | Inl e \<Rightarrow> Inl e)"

text \<open>The callable that \<open>__getattr__\<close> returns for the name \<open>attr\<close>, applied to \<open>args\<close>.\<close>

definition wrapped ::
    "(pyval \<Rightarrow> string) \<Rightarrow> proxy \<Rightarrow> string \<Rightarrow> pyval list \<Rightarrow> (string \<Rightarrow> json \<Rightarrow> body outcome)
       \<Rightarrow> (exn + pyval) \<times> proxy \<times> json option" where
  "wrapped str p attr args post =
     (case call_method p (PStr attr) (PTuple args) post of
        (Inl e, p', sent) \<Rightarrow> (Inl e, p', sent)
      | (Inr resp, p', sent) \<Rightarrow> (unwrap str resp, p', sent))"

text \<open>
  \<open>__getattr__\<close>: fetch the description while \<open>self.smd\<close> is false, then hand out
  \<open>wrapped\<close> for the name. The result is the proxy after the access, or the exception of
  the fetch.
\<close>

definition getattr :: "proxy \<Rightarrow> string \<Rightarrow> (string \<Rightarrow> body outcome) \<Rightarrow> (exn + unit) \<times> proxy" where
  "getattr p attr urlopen = (if \<not> truthy (smd p) then proxy_get_smd p None urlopen else (Inr (), p))"

text \<open>
  What an invocation through the proxy came to: the lookup of the name raised, so that
  nothing was called; or \<open>call_method\<close> ran, with the envelope it handed to the transport
  (\<open>None\<close> when serialization failed and nothing was sent).
\<close>

datatype report =
    Not_called
  | Called "json option"

text \<open>
  An invocation \<open>proxy.attr(*args)\<close>: \<open>__getattr__\<close> first, then the callable it
  returned. \<open>urlopen\<close> and \<open>post\<close> are the transport's behaviour during this
  invocation, for the fetch of the description and for the call.
\<close>

definition attr_call ::
    "(pyval \<Rightarrow> string) \<Rightarrow> proxy \<Rightarrow> string \<Rightarrow> pyval list \<Rightarrow> (string \<Rightarrow> body outcome)
       \<Rightarrow> (string \<Rightarrow> json \<Rightarrow> body outcome) \<Rightarrow> (exn + pyval) \<times> proxy \<times> report" where
  "attr_call str p attr args urlopen post =
     (case getattr p attr urlopen of
        (Inl e, p') \<Rightarrow> (Inl e, p', Not_called)
      | (Inr u, p') \<Rightarrow>
          (case wrapped str p' attr args post of (r, p'', sent) \<Rightarrow> (r, p'', Called sent)))"

text \<open>
  Successive invocations on one proxy, whatever each returns or raises. The result is the
  proxy after the last one and, invocation by invocation, what it came to.
\<close>

fun invoke_all ::
    "(pyval \<Rightarrow> string) \<Rightarrow> proxy
       \<Rightarrow> (string \<times> pyval list \<times> (string \<Rightarrow> body outcome) \<times> (string \<Rightarrow> json \<Rightarrow> body outcome)) list
       \<Rightarrow> proxy \<times> report list" where
  "invoke_all str p [] = (p, [])"
| "invoke_all str p ((attr, args, urlopen, post) # rest) =
     (case attr_call str p attr args urlopen post of
        (r, p', rep) \<Rightarrow> (case invoke_all str p' rest of (p'', reps) \<Rightarrow> (p'', rep # reps)))"

section \<open>Envelopes and requests, as the properties speak of them\<close>

text \<open>A member of a JSON object, \<open>None\<close> when the object has no such key.\<close>

definition field :: "string \<Rightarrow> json \<Rightarrow> json option" where
  "field k j = (case j of JObj kvs \<Rightarrow> map_of kvs k | _ \<Rightarrow> None)"

text \<open>
  A well-formed request: the body decodes to an object with the members \<open>id\<close>,
  \<open>method\<close> (a string) and \<open>params\<close>.
\<close>

definition well_formed :: "request \<Rightarrow> json \<Rightarrow> string \<Rightarrow> json \<Rightarrow> bool" where
  "well_formed request jid name jparams =
     (case raw_post_data request of
        Document (JObj kvs) \<Rightarrow>
          map_of kvs ''id'' = Some jid \<and> map_of kvs ''method'' = Some (JStr name)
          \<and> map_of kvs ''params'' = Some jparams
      | _ \<Rightarrow> False)"

text \<open>
  An authorized request: \<open>is_authorized\<close> returns, and the verdict it returns is true.
\<close>

definition authorized :: "(pyval \<Rightarrow> string) \<Rightarrow> service \<Rightarrow> request \<Rightarrow> string \<Rightarrow> json \<Rightarrow> bool" where
  "authorized str svc request name jparams =
     (case is_authorized str svc request (PStr name) (loads jparams) of
        Inr (auth, msg) \<Rightarrow> truthy auth
      | Inl e \<Rightarrow> False)"

text \<open>The two wire formats of a response, and the wire format of a request.\<close>

definition success_envelope :: "json \<Rightarrow> json \<Rightarrow> json" where
  "success_envelope jid jresult =
     JObj [(''version'', JStr ''1.1''), (''id'', jid), (''result'', jresult), (''error'', JNull)]"

definition error_envelope :: "json \<Rightarrow> string \<Rightarrow> json" where
  "error_envelope jid message =
     JObj [(''id'', jid), (''version'', JStr ''1.1''),
           (''error'', JObj [(''name'', JStr ''JsonRpcError''), (''code'', JInt 100),
                             (''message'', JStr message)])]"

definition call_envelope :: "string \<Rightarrow> json \<Rightarrow> int \<Rightarrow> json" where
  "call_envelope method_name params i =
     JObj [(''method'', JStr method_name), (''params'', params), (''id'', JInt i)]"

text \<open>
  Of a run of invocations: how many reached \<open>call_method\<close>, the envelopes that went out,
  and the integer ids those envelopes carry, all in order.
\<close>

fun calls_made :: "report list \<Rightarrow> nat" where
  "calls_made [] = 0"
| "calls_made (Not_called # reps) = calls_made reps"
| "calls_made (Called sent # reps) = Suc (calls_made reps)"

fun envelopes :: "report list \<Rightarrow> json list" where
  "envelopes [] = []"
| "envelopes (Called (Some j) # reps) = j # envelopes reps"
| "envelopes (rep # reps) = envelopes reps"

fun sent_ids :: "report list \<Rightarrow> int list" where
  "sent_ids [] = []"
| "sent_ids (Called (Some j) # reps) =
     (case field ''id'' j of Some (JInt k) \<Rightarrow> k # sent_ids reps | _ \<Rightarrow> sent_ids reps)"
| "sent_ids (rep # reps) = sent_ids reps"

text \<open>One method of a service description.\<close>

definition smd_entry :: "string \<Rightarrow> string list \<Rightarrow> json" where
  "smd_entry method_name parameters =
     JObj [(''name'', JStr method_name),
           (''parameters'', JArr (map (\<lambda>val. JObj [(''name'', JStr val)]) parameters))]"

section \<open>Example services, handlers, hooks and transports\<close>

text \<open>
  \<open>def add(context, a, b): return a + b\<close>, on integers. Called with one argument
  after the context it raises the interpreter's arity error.
\<close>

definition add :: pyobject where
  "add = \<lparr> is_true = True,
           invoke = (\<lambda>request params.
             case iterate params of
               Some [PInt a, PInt b] \<Rightarrow> Returns (PInt (a + b))
             | Some [a] \<Rightarrow>
                 Raises (Exc True ''TypeError'' (Inr (Text ''add() takes exactly 3 arguments (2 given)'')))
             | _ \<Rightarrow> Raises (Exc True ''TypeError'' (Inr (Text ''add() could not add its arguments'')))),
           argspec = Some [''context'', ''a'', ''b''] \<rparr>"

text \<open>A handler that returns an object \<open>simplejson\<close> cannot serialize.\<close>

definition opaque :: pyobject where
  "opaque = \<lparr> is_true = True, invoke = (\<lambda>request params. Returns (PObj 0)),
              argspec = Some [''request''] \<rparr>"

text \<open>A callable object that tests false (an instance with \<open>__call__\<close> and a zero \<open>__len__\<close>).\<close>

definition falsy_callable :: pyobject where
  "falsy_callable = \<lparr> is_true = False, invoke = (\<lambda>request params. Returns (PInt 5)),
                      argspec = None \<rparr>"






text \<open>\<open>def nothing(request): return None\<close>\<close>

definition returns_none :: pyobject where
  "returns_none = \<lparr> is_true = True, invoke = (\<lambda>request params. Returns PNone),
                    argspec = Some [''request''] \<rparr>"

text \<open>\<open>def echo(ctx, a, request): ...\<close>: the third argument happens to be called \<open>request\<close>.\<close>

definition echo :: pyobject where
  "echo = \<lparr> is_true = True, invoke = (\<lambda>request params. Returns params),
            argspec = Some [''ctx'', ''a'', ''request''] \<rparr>"

text \<open>A bound method \<open>def scale(self, request, x, y)\<close>.\<close>

definition bound_method :: pyobject where
  "bound_method = \<lparr> is_true = True, invoke = (\<lambda>request params. Returns PNone),
                    argspec = Some [''self'', ''request'', ''x'', ''y''] \<rparr>"

text \<open>Hooks: one returns a pair, two return a plain boolean.\<close>

definition deny :: "request \<Rightarrow> pyval \<Rightarrow> pyval \<Rightarrow> pyval outcome" where
  "deny request method_name params = Returns (PTuple [PBool False, PStr ''denied''])"



text \<open>Transports: one answers with a given body, two fail to connect.\<close>

definition replies :: "json \<Rightarrow> string \<Rightarrow> json \<Rightarrow> body outcome" where
  "replies resp url envelope = Returns (Document resp)"

definition refuses :: "string \<Rightarrow> json \<Rightarrow> body outcome" where
  "refuses url envelope =
     Raises (Exc True ''URLError'' (Inr (Text ''<urlopen error [Errno 111] Connection refused>'')))"

definition unreachable :: "string \<Rightarrow> body outcome" where
  "unreachable url =
     Raises (Exc True ''URLError'' (Inr (Text ''<urlopen error [Errno 111] Connection refused>'')))"

text \<open>A transport that serves the description of a service with the method \<open>add\<close>.\<close>

definition smd_document :: json where
  "smd_document =
     JObj [(''serviceType'', JStr ''JSON-RPC''), (''serviceURL'', JStr ''/rpc''),
           (''methods'', JArr [smd_entry ''add'' [''context'', ''a'', ''b'']])]"

definition describes :: "string \<Rightarrow> body outcome" where
  "describes url = Returns (Document smd_document)"

text \<open>
  A stand-in for \<open>str()\<close> in the examples, none of which formats anything but a string.
\<close>

definition no_str :: "pyval \<Rightarrow> string" where
  "no_str v = ''<object>''"

definition post_request :: "json \<Rightarrow> request" where
  "post_request j = \<lparr> http_method = ''POST'', raw_post_data = Document j, full_path = ''/rpc'' \<rparr>"

definition add_request :: request where
  "add_request = post_request (JObj [(''id'', JInt 1), (''method'', JStr ''add''),
                                     (''params'', JArr [JInt 2, JInt 3])])"


definition missing_request :: request where
  "missing_request = post_request (JObj [(''id'', JInt 7), (''method'', JStr ''missing''),
                                         (''params'', JArr [])])"

definition add_service :: service where
  "add_service = add_method (ServiceBase None False) ''add'' add"

text \<open>
  Three invocations in which the description is served: the second fails in the
  transport, the third is answered by an error. And three in which the service cannot be
  reached, so that the fetch of the description fails each time.
\<close>

definition three_calls ::
    "(string \<times> pyval list \<times> (string \<Rightarrow> body outcome) \<times> (string \<Rightarrow> json \<Rightarrow> body outcome)) list" where
  "three_calls =
     [(''add'', [PInt 2, PInt 3], describes, replies (success_envelope (JInt 1) (JInt 5))),
      (''add'', [PInt 4, PInt 5], describes, refuses),
      (''missing'', [], describes, replies (error_envelope (JInt 3) ''method \"missing\" does not exist''))]"

definition three_unreachable ::
    "(string \<times> pyval list \<times> (string \<Rightarrow> body outcome) \<times> (string \<Rightarrow> json \<Rightarrow> body outcome)) list" where
  "three_unreachable =
     [(''add'', [PInt 2, PInt 3], unreachable, refuses),
      (''add'', [PInt 4, PInt 5], unreachable, refuses),
      (''missing'', [], unreachable, refuses)]"

section \<open>Facts about the library and the interpreter's operations\<close>

lemma those_map_Some_image:
  "(\<And>x. x \<in> set xs \<Longrightarrow> f x = Some (g x)) \<Longrightarrow> those (map f xs) = Some (map g xs)"
proof (induction xs)
  case Nil
  then show ?case by simp
next
  case (Cons x xs)
  have "f x = Some (g x)" by (rule Cons.prems) simp
  moreover have "those (map f xs) = Some (map g xs)"
    by (rule Cons.IH, rule Cons.prems) simp
  ultimately show ?case by simp
qed

lemma those_map_Some_on:
  "(\<And>x. x \<in> set xs \<Longrightarrow> f x = Some x) \<Longrightarrow> those (map f xs) = Some xs"
  using those_map_Some_image [of xs f "\<lambda>x. x"] by simp

text \<open>Whatever was decoded from a body can be encoded again, and gives the same JSON value.\<close>

lemma dumps_loads: "dumps (loads j) = Some j"
proof (induction j rule: loads.induct)
  case (5 js)
  have "those (map (\<lambda>j. dumps (loads j)) js) = Some js"
    by (rule those_map_Some_on) (rule 5)
  then show ?case by (simp add: comp_def)
next
  case (6 kvs)
  have "those (map (\<lambda>x. (case x of (k, v) \<Rightarrow> map_option (Pair k) (dumps v)))
               (map (\<lambda>(k, v). (k, loads v)) kvs)) = Some kvs"
    unfolding map_map comp_def
  proof (rule those_map_Some_on)
    fix x assume x: "x \<in> set kvs"
    obtain k v where kv: "x = (k, v)" by (cases x)
    from x kv have "(k, v) \<in> set kvs" by simp
    then have "dumps (loads v) = Some v" by (rule 6) (rule refl)
    then show "(case case x of (k, v) \<Rightarrow> (k, loads v) of (k, v) \<Rightarrow> map_option (Pair k) (dumps v)) = Some x"
      using kv by simp
  qed
  then show ?case by (simp del: map_map)
qed simp_all

lemma map_of_loads: "map_of (map (\<lambda>(k, v). (k, loads v)) kvs) k = map_option loads (map_of kvs k)"
  by (induction kvs) auto

lemma to_json_get_response:
  "dumps i = Some ji \<Longrightarrow> dumps r = Some jr \<Longrightarrow>
   to_json (get_response i r) = Inr (success_envelope ji jr)"
  by (simp add: to_json_def get_response_def success_envelope_def)

lemma to_json_get_error:
  "dumps i = Some ji \<Longrightarrow> to_json (get_error i (PInt 100) (PStr m)) = Inr (error_envelope ji m)"
  by (simp add: to_json_def get_error_def error_envelope_def)

lemma to_json_get_response_shape:
  "to_json (get_response i r) = Inr j \<Longrightarrow> \<exists>ji jr. j = success_envelope ji jr"
  by (auto simp: to_json_def get_response_def success_envelope_def split: option.splits)

lemma to_json_get_error_shape:
  "to_json (get_error i c m) = Inr j \<Longrightarrow>
   \<exists>ji jc jm. j = JObj [(''id'', ji), (''version'', JStr ''1.1''),
                 (''error'', JObj [(''name'', JStr ''JsonRpcError''), (''code'', jc), (''message'', jm)])]"
  by (auto simp: to_json_def get_error_def split: option.splits)

lemma does_not_exist_str:
  "does_not_exist str (PStr name) = Inr (PStr (''method \"'' @ name @ ''\" does not exist''))"
  by (simp add: does_not_exist_def formatted_def percent_s_def)

section \<open>Facts about the registry and the dispatcher\<close>

lemma ServiceBase_simps [simp]:
  "methods (ServiceBase af se) = []" "auth_func (ServiceBase af se) = af"
  "show_exceptions (ServiceBase af se) = se"
  by (simp_all add: ServiceBase_def)

lemma auth_func_add_method [simp]: "auth_func (add_method svc n m) = auth_func svc"
  by (simp add: add_method_def)

lemma show_exceptions_add_method [simp]: "show_exceptions (add_method svc n m) = show_exceptions svc"
  by (simp add: add_method_def)

text \<open>The last registration of a name wins.\<close>

lemma map_of_add_method [simp]:
  "map_of (methods (add_method svc n m)) k = (if k = n then Some m else map_of (methods svc) k)"
  by (simp add: add_method_def update_conv')

text \<open>A registry built by \<open>add_method\<close> holds every name once.\<close>

lemma distinct_add_method:
  "distinct (map fst (methods svc)) \<Longrightarrow> distinct (map fst (methods (add_method svc n m)))"
  by (simp add: add_method_def distinct_update)


lemma get_method_registered:
  "map_of (methods svc) name = Some m \<Longrightarrow> get_method svc (PStr name) = Inr m"
  by (simp add: get_method_def)

lemma get_method_unregistered:
  "map_of (methods svc) name = None \<Longrightarrow> get_method svc (PStr name) = Inr py_None"
  by (simp add: get_method_def)

lemma get_method_auth_func [simp]: "get_method (svc\<lparr> auth_func := af \<rparr>) k = get_method svc k"
  by (simp add: get_method_def split: pyval.splits)

lemma is_authorized_methods [simp]:
  "is_authorized str (svc\<lparr> methods := ms \<rparr>) request method_name params
     = is_authorized str svc request method_name params"
  by (simp add: is_authorized_def)

lemma no_hook_authorized: "auth_func svc = None \<Longrightarrow> authorized str svc request name jparams"
  by (simp add: authorized_def is_authorized_def)

lemma read_fields_well_formed:
  "well_formed request jid name jparams \<Longrightarrow>
   read_fields (raw_post_data request) = Inr (loads jid, PStr name, loads jparams)"
  by (auto simp: well_formed_def read_fields_def simplejson_loads_def map_of_loads
           split: body.splits json.splits)

text \<open>
  What \<open>process_request\<close> does with a well-formed, authorized request, given the value
  \<open>get_method\<close> finds.
\<close>

lemma process_request_authorized:
  assumes "well_formed request jid name jparams" and "authorized str svc request name jparams"
    and "get_method svc (PStr name) = Inr m"
  shows "process_request str svc request =
     (if \<not> is_true m then Inr (error_envelope jid (''method \"'' @ name @ ''\" does not exist''))
      else (case invoke m request (loads jparams) of
              Returns result \<Rightarrow> to_json (get_response (loads jid) result)
            | Raises exc \<Rightarrow>
                if is_Exception exc then
                  if show_exceptions svc
                  then (case exception_message exc of
                          Inl e \<Rightarrow> Inl e
                        | Inr msg \<Rightarrow> to_json (get_error (loads jid) (PInt 100) msg))
                  else Inr (error_envelope jid ''An error occurred'')
                else Inl (Raised exc)))"
  using assms(2,3)
  by (auto simp: process_request_def read_fields_well_formed [OF assms(1)] authorized_def
        does_not_exist_str to_json_get_error dumps_loads
      split: sum.splits prod.splits outcome.splits)

text \<open>Whatever made the first \<open>try\<close> fail, its handler fails on reading \<open>id\<close>.\<close>

lemma process_request_malformed:
  "read_fields (raw_post_data request) = Inl e \<Longrightarrow>
   process_request str svc request = Inl (UnboundLocalError ''id'')"
  by (simp add: process_request_def read_local_def)

lemma process_request_shape:
  assumes "process_request str svc request = Inr j"
  shows "(\<exists>ji jr. j = success_envelope ji jr)
       \<or> (\<exists>ji jc jm. j = JObj [(''id'', ji), (''version'', JStr ''1.1''),
                 (''error'', JObj [(''name'', JStr ''JsonRpcError''), (''code'', jc), (''message'', jm)])])"
  using assms
  by (auto simp: process_request_def read_local_def
      split: sum.splits prod.splits if_splits outcome.splits
      dest: to_json_get_response_shape to_json_get_error_shape)

section \<open>Facts about the examples\<close>

lemma add_request_well_formed: "well_formed add_request (JInt 1) ''add'' (JArr [JInt 2, JInt 3])"
  by (simp add: well_formed_def add_request_def post_request_def)


lemma missing_request_well_formed: "well_formed missing_request (JInt 7) ''missing'' (JArr [])"
  by (simp add: well_formed_def missing_request_def post_request_def)

lemma add_service_no_hook: "auth_func add_service = None"
  by (simp add: add_service_def)

lemma add_service_add_request:
  "process_request no_str add_service add_request = Inr (success_envelope (JInt 1) (JInt 5))"
proof -
  have gm: "get_method add_service (PStr ''add'') = Inr add"
    by (rule get_method_registered) (simp add: add_service_def)
  show ?thesis
    using process_request_authorized
      [OF add_request_well_formed no_hook_authorized [OF add_service_no_hook] gm, of no_str]
    by (simp add: add_def to_json_get_response)
qed

lemma add_service_missing_request:
  "process_request no_str add_service missing_request
     = Inr (error_envelope (JInt 7) ''method \"missing\" does not exist'')"
proof -
  have gm: "get_method add_service (PStr ''missing'') = Inr py_None"
    by (rule get_method_unregistered) (simp add: add_service_def)
  show ?thesis
    using process_request_authorized
      [OF missing_request_well_formed no_hook_authorized [OF add_service_no_hook] gm, of no_str]
    by (simp add: py_None_def)
qed

section \<open>The dispatcher: successful calls\<close>

text \<open>
  Claim C1, as amended. For every well-formed request that passes authorization and whose
  method name is bound in the registry to a true-valued handler which, called with the
  request and the params, returns a JSON-serializable value, \<open>process_request\<close> returns
  the envelope with version "1.1", the request's id, the handler's value as result and a
  null error.
\<close>

theorem process_request_success:
  assumes "well_formed request jid name jparams"
    and "authorized str svc request name jparams"
    and "map_of (methods svc) name = Some m"
    and "is_true m"
    and "invoke m request (loads jparams) = Returns result"
    and "dumps result = Some jresult"
  shows "process_request str svc request = Inr (success_envelope jid jresult)"
  using assms(4-6)
  by (simp add: process_request_authorized [OF assms(1,2) get_method_registered [OF assms(3)]]
        to_json_get_response dumps_loads)

text \<open>
  The scenario of the claim: with \<open>add\<close> registered and no hook, the request
  \<open>{"id":1,"method":"add","params":[2,3]}\<close> is answered by
  \<open>{"version":"1.1","id":1,"result":5,"error":null}\<close>.
\<close>

theorem process_request_success_witness:
  "well_formed add_request (JInt 1) ''add'' (JArr [JInt 2, JInt 3])
   \<and> authorized no_str add_service add_request ''add'' (JArr [JInt 2, JInt 3])
   \<and> map_of (methods add_service) ''add'' = Some add
   \<and> is_true add
   \<and> invoke add add_request (loads (JArr [JInt 2, JInt 3])) = Returns (PInt 5)
   \<and> dumps (PInt 5) = Some (JInt 5)
   \<and> process_request no_str add_service add_request =
       Inr (JObj [(''version'', JStr ''1.1''), (''id'', JInt 1), (''result'', JInt 5), (''error'', JNull)])"
proof -
  have h1: "well_formed add_request (JInt 1) ''add'' (JArr [JInt 2, JInt 3])"
    by (rule add_request_well_formed)
  have h2: "authorized no_str add_service add_request ''add'' (JArr [JInt 2, JInt 3])"
    by (rule no_hook_authorized) (simp add: add_service_def)
  have h3: "map_of (methods add_service) ''add'' = Some add"
    by (simp add: add_service_def)
  have h4: "is_true add" by (simp add: add_def)
  have h5: "invoke add add_request (loads (JArr [JInt 2, JInt 3])) = Returns (PInt 5)"
    by (simp add: add_def)
  have h6: "dumps (PInt 5) = Some (JInt 5)" by simp
  show ?thesis
    using process_request_success [OF h1 h2 h3 h4 h5 h6] h1 h2 h3 h4 h5
    by (simp add: success_envelope_def)
qed

text \<open>
  Claim C1 as stated fails. The same request, naming the same registered handler, is
  answered by an error envelope when the hook rejects it; the call raises \<open>TypeError\<close>
  when the handler's value is not serializable (\<open>to_json\<close> runs outside the \<open>try\<close>);
  and a registered callable that tests false is never called.
\<close>

theorem process_request_success_counterexample:
  "well_formed add_request (JInt 1) ''add'' (JArr [JInt 2, JInt 3])
   \<and> map_of (methods (add_method (ServiceBase (Some deny) False) ''add'' add)) ''add'' = Some add
   \<and> invoke add add_request (loads (JArr [JInt 2, JInt 3])) = Returns (PInt 5)
   \<and> process_request no_str (add_method (ServiceBase (Some deny) False) ''add'' add) add_request
       = Inr (error_envelope (JInt 1) ''denied'')
   \<and> map_of (methods (add_method (ServiceBase None False) ''add'' opaque)) ''add'' = Some opaque
   \<and> invoke opaque add_request (loads (JArr [JInt 2, JInt 3])) = Returns (PObj 0)
   \<and> process_request no_str (add_method (ServiceBase None False) ''add'' opaque) add_request
       = Inl TypeError
   \<and> map_of (methods (add_method (ServiceBase None False) ''add'' falsy_callable)) ''add''
       = Some falsy_callable
   \<and> invoke falsy_callable add_request (loads (JArr [JInt 2, JInt 3])) = Returns (PInt 5)
   \<and> process_request no_str (add_method (ServiceBase None False) ''add'' falsy_callable) add_request
       = Inr (error_envelope (JInt 1) ''method \"add\" does not exist'')"
proof -
  have wf: "well_formed add_request (JInt 1) ''add'' (JArr [JInt 2, JInt 3])"
    by (rule add_request_well_formed)
  have rf: "read_fields (raw_post_data add_request) = Inr (PInt 1, PStr ''add'', PList [PInt 2, PInt 3])"
    using read_fields_well_formed [OF wf] by simp
  have a: "process_request no_str (add_method (ServiceBase (Some deny) False) ''add'' add) add_request
       = Inr (error_envelope (JInt 1) ''denied'')"
    by (simp add: process_request_def rf is_authorized_def deny_def unpack2_def to_json_get_error)
  have au: "\<And>m. authorized no_str (add_method (ServiceBase None False) ''add'' m) add_request ''add''
       (JArr [JInt 2, JInt 3])"
    by (rule no_hook_authorized) simp
  have gm: "\<And>m. get_method (add_method (ServiceBase None False) ''add'' m) (PStr ''add'') = Inr m"
    by (rule get_method_registered) simp
  have b: "process_request no_str (add_method (ServiceBase None False) ''add'' opaque) add_request
       = Inl TypeError"
    using process_request_authorized [OF wf au [of opaque] gm [of opaque]]
    by (simp add: opaque_def to_json_def get_response_def)
  have c: "process_request no_str (add_method (ServiceBase None False) ''add'' falsy_callable) add_request
       = Inr (error_envelope (JInt 1) ''method \"add\" does not exist'')"
    using process_request_authorized [OF wf au [of falsy_callable] gm [of falsy_callable]]
    by (simp add: falsy_callable_def)
  show ?thesis using wf a b c by (simp add: add_def opaque_def falsy_callable_def)
qed

section \<open>The dispatcher: malformed requests\<close>

text \<open>
  Claim C2. The claim is that a malformed payload is answered by an error envelope with
  code 100 and the message "Malformed JSON-RPC 1.1 request". The code does not get there:
  on a body that does not decode, and on a decoded object without \<open>params\<close>, without
  \<open>method\<close> or without \<open>id\<close>, \<open>process_request\<close> raises \<open>UnboundLocalError\<close>,
  because the handler of the first \<open>try\<close> reads the local \<open>id\<close> that was never assigned.
\<close>

theorem process_request_malformed_raises:
  "process_request no_str add_service
     \<lparr> http_method = ''POST'', raw_post_data = Undecodable, full_path = ''/rpc'' \<rparr>
     = Inl (UnboundLocalError ''id'')
   \<and> process_request no_str add_service
       (post_request (JObj [(''id'', JInt 1), (''method'', JStr ''add'')]))
     = Inl (UnboundLocalError ''id'')
   \<and> process_request no_str add_service
       (post_request (JObj [(''id'', JInt 1), (''params'', JArr [JInt 2, JInt 3])]))
     = Inl (UnboundLocalError ''id'')
   \<and> process_request no_str add_service
       (post_request (JObj [(''method'', JStr ''add''), (''params'', JArr [JInt 2, JInt 3])]))
     = Inl (UnboundLocalError ''id'')"
  by (simp add: process_request_malformed read_fields_def simplejson_loads_def post_request_def)

section \<open>The dispatcher: unregistered methods\<close>

text \<open>
  Claim C3. For every well-formed, authorized request naming a method with no registry
  entry, \<open>process_request\<close> returns the error envelope with code 100 and the message
  \<open>method "<name>" does not exist\<close>.
\<close>

theorem process_request_unregistered:
  assumes "well_formed request jid name jparams"
    and "authorized str svc request name jparams"
    and "map_of (methods svc) name = None"
  shows "process_request str svc request =
           Inr (error_envelope jid (''method \"'' @ name @ ''\" does not exist''))"
  by (simp add: process_request_authorized [OF assms(1,2) get_method_unregistered [OF assms(3)]]
        py_None_def)

theorem process_request_unregistered_witness:
  "well_formed missing_request (JInt 7) ''missing'' (JArr [])
   \<and> authorized no_str add_service missing_request ''missing'' (JArr [])
   \<and> map_of (methods add_service) ''missing'' = None
   \<and> process_request no_str add_service missing_request =
       Inr (JObj [(''id'', JInt 7), (''version'', JStr ''1.1''),
                  (''error'', JObj [(''name'', JStr ''JsonRpcError''), (''code'', JInt 100),
                                    (''message'', JStr ''method \"missing\" does not exist'')])])"
proof -
  have h1: "well_formed missing_request (JInt 7) ''missing'' (JArr [])"
    by (rule missing_request_well_formed)
  have h2: "authorized no_str add_service missing_request ''missing'' (JArr [])"
    by (rule no_hook_authorized) (simp add: add_service_def)
  have h3: "map_of (methods add_service) ''missing'' = None"
    by (simp add: add_service_def)
  show ?thesis
    using process_request_unregistered [OF h1 h2 h3] h1 h2 h3
    by (simp add: error_envelope_def)
qed

section \<open>The dispatcher: the authorization hook\<close>




section \<open>The dispatcher: failing handlers\<close>




section \<open>The client proxy: unwrapping a response\<close>

lemma wrapped_returned:
  "call_method p (PStr attr) (PTuple args) post = (Inr resp, p', sent) \<Longrightarrow>
   wrapped str p attr args post = (unwrap str resp, p', sent)"
  by (simp add: wrapped_def)

lemma call_method_replies:
  "dumps (PTuple args) = Some jargs \<Longrightarrow>
   call_method p (PStr attr) (PTuple args) (replies resp)
     = (Inr (loads resp), p\<lparr> call_id := call_id p + 1 \<rparr>,
        Some (call_envelope attr jargs (call_id p + 1)))"
  by (auto simp: call_method_def Let_def to_json_def replies_def from_json_def simplejson_loads_def
        call_envelope_def
      split: option.splits)

text \<open>
  Claim C6, as amended. For every parsed response object received by the callable that
  \<open>__getattr__\<close> hands out: if the object has a \<open>result\<close> member the call returns it,
  whatever \<open>error\<close> holds; if it has no \<open>result\<close> member and its \<open>error\<close> is an
  object with a name and a message, the call raises \<open>JsonRpcError\<close> with the message
  \<open><name>: <message>\<close>.
\<close>

theorem wrapped_unwraps:
  assumes "call_method p (PStr attr) (PTuple args) post = (Inr (PDict kvs), p', sent)"
  shows "(map_of kvs ''result'' = Some r \<longrightarrow> fst (wrapped str p attr args post) = Inr r)
       \<and> (map_of kvs ''result'' = None \<and> map_of kvs ''error'' = Some (PDict ekvs)
            \<and> map_of ekvs ''name'' = Some n \<and> map_of ekvs ''message'' = Some msg
          \<longrightarrow> fst (wrapped str p attr args post)
                = Inl (JsonRpcError (percent_s str n @ '': '' @ percent_s str msg)))"
  by (simp add: wrapped_returned [OF assms] unwrap_def)

theorem wrapped_unwraps_witness:
  "call_method (ServiceProxy ''http://host/rpc'') (PStr ''add'') (PTuple [PInt 2, PInt 3])
       (replies (success_envelope (JInt 1) (JInt 5)))
     = (Inr (PDict [(''version'', PStr ''1.1''), (''id'', PInt 1), (''result'', PInt 5), (''error'', PNone)]),
        (ServiceProxy ''http://host/rpc'')\<lparr> call_id := 1 \<rparr>,
        Some (call_envelope ''add'' (JArr [JInt 2, JInt 3]) 1))
   \<and> fst (wrapped no_str (ServiceProxy ''http://host/rpc'') ''add'' [PInt 2, PInt 3]
            (replies (success_envelope (JInt 1) (JInt 5)))) = Inr (PInt 5)
   \<and> call_method (ServiceProxy ''http://host/rpc'') (PStr ''missing'') (PTuple [])
       (replies (error_envelope (JInt 1) ''method \"missing\" does not exist''))
     = (Inr (PDict [(''id'', PInt 1), (''version'', PStr ''1.1''),
                    (''error'', PDict [(''name'', PStr ''JsonRpcError''), (''code'', PInt 100),
                                       (''message'', PStr ''method \"missing\" does not exist'')])]),
        (ServiceProxy ''http://host/rpc'')\<lparr> call_id := 1 \<rparr>,
        Some (call_envelope ''missing'' (JArr []) 1))
   \<and> fst (wrapped no_str (ServiceProxy ''http://host/rpc'') ''missing'' []
            (replies (error_envelope (JInt 1) ''method \"missing\" does not exist'')))
       = Inl (JsonRpcError ''JsonRpcError: method \"missing\" does not exist'')"
proof -
  let ?p = "ServiceProxy ''http://host/rpc''"
  have c1: "call_method ?p (PStr ''add'') (PTuple [PInt 2, PInt 3])
       (replies (success_envelope (JInt 1) (JInt 5)))
     = (Inr (PDict [(''version'', PStr ''1.1''), (''id'', PInt 1), (''result'', PInt 5), (''error'', PNone)]),
        ?p\<lparr> call_id := 1 \<rparr>,
        Some (call_envelope ''add'' (JArr [JInt 2, JInt 3]) 1))"
    by (simp add: call_method_replies success_envelope_def ServiceProxy_def)
  have c2: "call_method ?p (PStr ''missing'') (PTuple [])
       (replies (error_envelope (JInt 1) ''method \"missing\" does not exist''))
     = (Inr (PDict [(''id'', PInt 1), (''version'', PStr ''1.1''),
                    (''error'', PDict [(''name'', PStr ''JsonRpcError''), (''code'', PInt 100),
                                       (''message'', PStr ''method \"missing\" does not exist'')])]),
        ?p\<lparr> call_id := 1 \<rparr>,
        Some (call_envelope ''missing'' (JArr []) 1))"
    by (simp add: call_method_replies error_envelope_def ServiceProxy_def)
  show ?thesis
    using wrapped_unwraps [OF c1, of "PInt 5" no_str]
      wrapped_unwraps [OF c2, of _ no_str
        "[(''name'', PStr ''JsonRpcError''), (''code'', PInt 100),
          (''message'', PStr ''method \"missing\" does not exist'')]"
        "PStr ''JsonRpcError''" "PStr ''method \"missing\" does not exist''"]
      c1 c2
    by (simp add: percent_s_def)
qed

text \<open>
  Claim C6 as stated fails: a response that carries a populated \<open>error\<close> next to a
  \<open>result\<close> member makes the call return that result (here \<open>None\<close>) instead of raising.
\<close>

theorem wrapped_unwraps_counterexample:
  "fst (wrapped no_str (ServiceProxy ''http://host/rpc'') ''add'' [PInt 2, PInt 3]
         (replies (JObj [(''version'', JStr ''1.1''), (''id'', JInt 1), (''result'', JNull),
                         (''error'', JObj [(''name'', JStr ''JsonRpcError''), (''code'', JInt 100),
                                           (''message'', JStr ''An error occurred'')])])))
     = Inr PNone"
  by (simp add: wrapped_def call_method_replies unwrap_def)

section \<open>The keys of a response envelope\<close>

text \<open>
  Claim C7, as amended. Every response envelope the dispatcher returns carries version
  "1.1" and an \<open>error\<close> member. A success response also has a \<open>result\<close> member (the
  handler's value, which may itself be null) and a null \<open>error\<close>; an error response
  carries an error object and has no \<open>result\<close> member at all.
\<close>

theorem response_envelope_keys:
  assumes "process_request str svc request = Inr j"
  shows "field ''version'' j = Some (JStr ''1.1'')
       \<and> ((\<exists>r. field ''result'' j = Some r) \<and> field ''error'' j = Some JNull
          \<or> field ''result'' j = None \<and> (\<exists>e. field ''error'' j = Some (JObj e)))"
  using process_request_shape [OF assms]
  by (auto simp: field_def success_envelope_def)

theorem response_envelope_keys_witness:
  "process_request no_str add_service add_request = Inr (success_envelope (JInt 1) (JInt 5))
   \<and> field ''version'' (success_envelope (JInt 1) (JInt 5)) = Some (JStr ''1.1'')
   \<and> field ''result'' (success_envelope (JInt 1) (JInt 5)) = Some (JInt 5)
   \<and> field ''error'' (success_envelope (JInt 1) (JInt 5)) = Some JNull
   \<and> process_request no_str add_service missing_request
       = Inr (error_envelope (JInt 7) ''method \"missing\" does not exist'')
   \<and> field ''version'' (error_envelope (JInt 7) ''method \"missing\" does not exist'') = Some (JStr ''1.1'')
   \<and> field ''result'' (error_envelope (JInt 7) ''method \"missing\" does not exist'') = None
   \<and> field ''error'' (error_envelope (JInt 7) ''method \"missing\" does not exist'')
       = Some (JObj [(''name'', JStr ''JsonRpcError''), (''code'', JInt 100),
                     (''message'', JStr ''method \"missing\" does not exist'')])"
  using response_envelope_keys [OF add_service_add_request]
    response_envelope_keys [OF add_service_missing_request]
    add_service_add_request add_service_missing_request
  by (simp add: field_def success_envelope_def error_envelope_def)

text \<open>
  Claim C7 as stated fails twice: an error response has no \<open>result\<close> key, and a success
  response to a handler that returns \<open>None\<close> has both \<open>result\<close> and \<open>error\<close> null.
\<close>

theorem response_envelope_keys_counterexample:
  "process_request no_str add_service missing_request
     = Inr (error_envelope (JInt 7) ''method \"missing\" does not exist'')
   \<and> field ''result'' (error_envelope (JInt 7) ''method \"missing\" does not exist'') = None
   \<and> process_request no_str (add_method (ServiceBase None False) ''add'' returns_none) add_request
       = Inr (success_envelope (JInt 1) JNull)
   \<and> field ''result'' (success_envelope (JInt 1) JNull) = Some JNull
   \<and> field ''error'' (success_envelope (JInt 1) JNull) = Some JNull"
proof -
  have au: "authorized no_str (add_method (ServiceBase None False) ''add'' returns_none) add_request
       ''add'' (JArr [JInt 2, JInt 3])"
    by (rule no_hook_authorized) simp
  have gm: "get_method (add_method (ServiceBase None False) ''add'' returns_none) (PStr ''add'')
       = Inr returns_none"
    by (rule get_method_registered) simp
  have "process_request no_str (add_method (ServiceBase None False) ''add'' returns_none) add_request
       = Inr (success_envelope (JInt 1) JNull)"
    using process_request_authorized [OF add_request_well_formed au gm]
    by (simp add: returns_none_def to_json_get_response)
  then show ?thesis
    using add_service_missing_request
    by (simp add: field_def success_envelope_def error_envelope_def)
qed

section \<open>The service description\<close>

lemma smd_methods_registered:
  assumes "\<And>n. n \<in> set ns \<Longrightarrow> \<exists>m args. map_of (methods svc) n = Some m \<and> argspec m = Some args"
  shows "smd_methods svc ns =
     Inr (map (\<lambda>n. PDict [(''name'', PStr n),
                          (''parameters'',
                           PList (map (\<lambda>val. PDict [(''name'', PStr val)])
                                    (filter (\<lambda>val. val \<noteq> ''self'' \<and> val \<noteq> ''request'')
                                       (the (argspec (the (map_of (methods svc) n)))))))]) ns)"
  using assms
proof (induction ns)
  case Nil
  then show ?case by simp
next
  case (Cons n ns)
  obtain m args where m: "map_of (methods svc) n = Some m" "argspec m = Some args"
    using Cons.prems [of n] by auto
  have rest: "smd_methods svc ns =
     Inr (map (\<lambda>n. PDict [(''name'', PStr n),
                          (''parameters'',
                           PList (map (\<lambda>val. PDict [(''name'', PStr val)])
                                    (filter (\<lambda>val. val \<noteq> ''self'' \<and> val \<noteq> ''request'')
                                       (the (argspec (the (map_of (methods svc) n)))))))]) ns)"
    by (rule Cons.IH, rule Cons.prems) simp
  show ?case
    by (simp add: get_method_registered [OF m(1)] m rest)
qed

lemma dumps_smd_entry:
  "dumps (PDict [(''name'', PStr n),
                 (''parameters'', PList (map (\<lambda>val. PDict [(''name'', PStr val)]) vals))])
     = Some (smd_entry n vals)"
proof -
  have "those (map dumps (map (\<lambda>val. PDict [(''name'', PStr val)]) vals))
          = Some (map (\<lambda>val. JObj [(''name'', JStr val)]) vals)"
    unfolding map_map by (rule those_map_Some_image) simp
  then show ?thesis by (simp add: smd_entry_def del: map_map)
qed

text \<open>
  Claim C8, as amended. For a registry of functions and methods (every registered value
  can be introspected; as in any dictionary, every name is held once), the service
  description lists one entry per registered method, in the registry's order, whose
  parameters are the handler's declared parameter names in declaration order without every
  parameter named "self" or "request", wherever it stands.
\<close>

theorem get_smd_describes:
  assumes "distinct (map fst (methods svc))"
    and "\<forall>(n, m) \<in> set (methods svc). argspec m \<noteq> None"
  shows "get_smd svc url =
     Inr (JObj [(''serviceType'', JStr ''JSON-RPC''), (''serviceURL'', JStr url),
                (''methods'',
                 JArr (map (\<lambda>(n, m). smd_entry n
                              (filter (\<lambda>val. val \<noteq> ''self'' \<and> val \<noteq> ''request'') (the (argspec m))))
                         (methods svc)))])"
proof -
  let ?py = "\<lambda>n. PDict [(''name'', PStr n),
                          (''parameters'',
                           PList (map (\<lambda>val. PDict [(''name'', PStr val)])
                                    (filter (\<lambda>val. val \<noteq> ''self'' \<and> val \<noteq> ''request'')
                                       (the (argspec (the (map_of (methods svc) n)))))))]"
  let ?js = "\<lambda>(n, m). smd_entry n
                (filter (\<lambda>val. val \<noteq> ''self'' \<and> val \<noteq> ''request'') (the (argspec m)))"
  have look: "map_of (methods svc) n = Some m" if "(n, m) \<in> set (methods svc)" for n m
    using assms(1) that by (rule map_of_is_SomeI)
  have "smd_methods svc (list_methods svc) = Inr (map ?py (list_methods svc))"
  proof (rule smd_methods_registered)
    fix n assume "n \<in> set (list_methods svc)"
    then obtain m where nm: "(n, m) \<in> set (methods svc)"
      by (auto simp: list_methods_def)
    then have "argspec m \<noteq> None" using assms(2) by auto
    then show "\<exists>m args. map_of (methods svc) n = Some m \<and> argspec m = Some args"
      using look [OF nm] by auto
  qed
  moreover have "those (map dumps (map ?py (list_methods svc))) = Some (map ?js (methods svc))"
    unfolding list_methods_def map_map
  proof (rule those_map_Some_image)
    fix x assume x: "x \<in> set (methods svc)"
    obtain n m where nm: "x = (n, m)" by (cases x)
    with x have "map_of (methods svc) n = Some m" by (simp add: look)
    then have "dumps (?py n) = Some (?js (n, m))"
      by (simp only: option.sel prod.case dumps_smd_entry)
    then show "(dumps \<circ> (?py \<circ> fst)) x = Some (?js x)"
      using nm by (simp del: dumps.simps)
  qed
  ultimately show ?thesis
    by (simp add: get_smd_def to_json_def del: map_map)
qed

theorem get_smd_describes_witness:
  "distinct (map fst (methods (add_method (add_method (ServiceBase None False) ''add'' add) ''scale'' bound_method)))
   \<and> methods (add_method (add_method (ServiceBase None False) ''add'' add) ''scale'' bound_method)
       = [(''add'', add), (''scale'', bound_method)]
   \<and> argspec add = Some [''context'', ''a'', ''b'']
   \<and> argspec bound_method = Some [''self'', ''request'', ''x'', ''y'']
   \<and> get_smd (add_method (add_method (ServiceBase None False) ''add'' add) ''scale'' bound_method) ''/rpc''
       = Inr (JObj [(''serviceType'', JStr ''JSON-RPC''), (''serviceURL'', JStr ''/rpc''),
                    (''methods'', JArr [smd_entry ''add'' [''context'', ''a'', ''b''],
                                        smd_entry ''scale'' [''x'', ''y'']])])"
proof -
  let ?svc = "add_method (add_method (ServiceBase None False) ''add'' add) ''scale'' bound_method"
  have ms: "methods ?svc = [(''add'', add), (''scale'', bound_method)]"
    by (simp add: add_method_def ServiceBase_def)
  have as: "argspec add = Some [''context'', ''a'', ''b'']"
    "argspec bound_method = Some [''self'', ''request'', ''x'', ''y'']"
    by (simp_all add: add_def bound_method_def)
  have h1: "distinct (map fst (methods ?svc))" by (simp add: ms)
  have h2: "\<forall>(n, m) \<in> set (methods ?svc). argspec m \<noteq> None"
    by (simp add: ms as)
  show ?thesis
    using get_smd_describes [OF h1 h2, of "''/rpc''"] h1 ms as
    by simp
qed

text \<open>
  Claim C8 as stated fails: a parameter named "request" in third position, behind the
  context argument \<open>ctx\<close> and the argument \<open>a\<close>, is not retained.
\<close>

theorem get_smd_describes_counterexample:
  "argspec echo = Some [''ctx'', ''a'', ''request'']
   \<and> get_smd (add_method (ServiceBase None False) ''echo'' echo) ''/rpc''
       = Inr (JObj [(''serviceType'', JStr ''JSON-RPC''), (''serviceURL'', JStr ''/rpc''),
                    (''methods'', JArr [smd_entry ''echo'' [''ctx'', ''a'']])])"
proof -
  have ms: "methods (add_method (ServiceBase None False) ''echo'' echo) = [(''echo'', echo)]"
    by (simp add: add_method_def ServiceBase_def)
  have ae: "argspec echo = Some [''ctx'', ''a'', ''request'']"
    by (simp add: echo_def)
  have "smd_methods (add_method (ServiceBase None False) ''echo'' echo) [''echo'']
          = Inr [PDict [(''name'', PStr ''echo''),
                        (''parameters'', PList [PDict [(''name'', PStr ''ctx'')], PDict [(''name'', PStr ''a'')]])]]"
    by (simp add: get_method_def ms ae)
  then show ?thesis
    by (simp add: get_smd_def list_methods_def ms to_json_def smd_entry_def ae)
qed

section \<open>The client proxy: the call identifier\<close>

lemma to_json_envelope_id:
  "to_json (PDict [(''method'', m), (''params'', ps), (''id'', PInt k)]) = Inr j \<Longrightarrow>
   field ''id'' j = Some (JInt k)"
  by (auto simp: to_json_def field_def split: option.splits)

lemma call_method_call_id:
  assumes "call_method p method_name params post = (r, p', sent)"
  shows "call_id p' = call_id p + 1"
    and "sent = Some j \<Longrightarrow> field ''id'' j = Some (JInt (call_id p + 1))"
  using assms
  by (auto simp: call_method_def Let_def split: sum.splits outcome.splits dest: to_json_envelope_id)

text \<open>
  The transport is consulted at the service URL with the envelope that carries the new
  identifier, and with nothing else; that envelope is the one reported as sent.
\<close>

lemma call_method_sends:
  assumes "dumps method_name = Some jm" and "dumps params = Some jp"
  shows "call_method p method_name params post =
     (case post (service_url p)
             (JObj [(''method'', jm), (''params'', jp), (''id'', JInt (call_id p + 1))]) of
        Raises exc \<Rightarrow> Inl (Raised exc)
      | Returns data \<Rightarrow> from_json data,
      p\<lparr> call_id := call_id p + 1 \<rparr>,
      Some (JObj [(''method'', jm), (''params'', jp), (''id'', JInt (call_id p + 1))]))"
  using assms
  by (simp add: call_method_def Let_def to_json_def split: outcome.splits sum.splits)

lemma wrapped_call_id:
  assumes "wrapped str p attr args post = (r, p', sent)"
  shows "call_id p' = call_id p + 1"
    and "sent = Some j \<Longrightarrow> field ''id'' j = Some (JInt (call_id p + 1))"
proof -
  obtain r0 where c: "call_method p (PStr attr) (PTuple args) post = (r0, p', sent)"
    using assms by (auto simp: wrapped_def split: prod.splits sum.splits)
  show "call_id p' = call_id p + 1" by (rule call_method_call_id(1) [OF c])
  show "sent = Some j \<Longrightarrow> field ''id'' j = Some (JInt (call_id p + 1))"
    by (rule call_method_call_id(2) [OF c])
qed

text \<open>Looking a method up on the proxy, with or without a fetch, leaves the identifier alone.\<close>

lemma getattr_call_id: "call_id (snd (getattr p attr urlopen)) = call_id p"
  by (simp add: getattr_def proxy_get_smd_def Let_def split: outcome.splits sum.splits option.splits)

text \<open>
  One invocation: either the lookup raised, nothing was called and the identifier stands;
  or \<open>call_method\<close> ran and the identifier is one higher, the value the envelope carries.
\<close>

lemma attr_call_step:
  assumes "attr_call str p attr args urlopen post = (r, p', rep)"
  shows "(rep = Not_called \<and> call_id p' = call_id p)
       \<or> (\<exists>sent. rep = Called sent \<and> call_id p' = call_id p + 1
             \<and> (\<forall>j. sent = Some j \<longrightarrow> field ''id'' j = Some (JInt (call_id p + 1))))"
proof (cases "getattr p attr urlopen")
  case (Pair g p1)
  have c1: "call_id p1 = call_id p"
    using getattr_call_id [of p attr urlopen] Pair by simp
  show ?thesis
  proof (cases g)
    case (Inl e)
    then show ?thesis using assms Pair c1 by (simp add: attr_call_def)
  next
    case (Inr u)
    obtain r2 p2 sent where w: "wrapped str p1 attr args post = (r2, p2, sent)"
      by (cases "wrapped str p1 attr args post")
    have "rep = Called sent" "p' = p2"
      using assms Pair Inr w by (simp_all add: attr_call_def)
    then show ?thesis
      using wrapped_call_id [OF w] c1 by auto
  qed
qed

lemma invoke_all_call_ids:
  "invoke_all str p invocations = (p', reports) \<Longrightarrow>
   call_id p' = call_id p + int (calls_made reports) \<and> length reports = length invocations
   \<and> sorted_wrt (<) (sent_ids reports)
   \<and> (\<forall>k \<in> set (sent_ids reports). call_id p < k \<and> k \<le> call_id p')
   \<and> length (sent_ids reports) = length (envelopes reports)"
proof (induction invocations arbitrary: p p' reports)
  case Nil
  then show ?case by simp
next
  case (Cons c invocations)
  obtain attr args urlopen post where c: "c = (attr, args, urlopen, post)" by (cases c)
  obtain r p1 rep where a: "attr_call str p attr args urlopen post = (r, p1, rep)"
    by (cases "attr_call str p attr args urlopen post")
  obtain p2 reps where i: "invoke_all str p1 invocations = (p2, reps)"
    by (cases "invoke_all str p1 invocations")
  from Cons.prems c a i have eq: "p' = p2" "reports = rep # reps" by simp_all
  note ih = Cons.IH [OF i]
  have ih1: "call_id p2 = call_id p1 + int (calls_made reps)"
    and ih2: "length reps = length invocations"
    and ih3: "sorted_wrt (<) (sent_ids reps)"
    and ih4: "\<And>k. k \<in> set (sent_ids reps) \<Longrightarrow> call_id p1 < k \<and> k \<le> call_id p2"
    and ih5: "length (sent_ids reps) = length (envelopes reps)"
    using ih by blast+
  from attr_call_step [OF a] show ?case
  proof (elim disjE conjE exE)
    assume n: "rep = Not_called" "call_id p1 = call_id p"
    have "sent_ids (rep # reps) = sent_ids reps" "envelopes (rep # reps) = envelopes reps"
      "calls_made (rep # reps) = calls_made reps"
      using n by simp_all
    moreover have "\<forall>k \<in> set (sent_ids reps). call_id p < k \<and> k \<le> call_id p2"
      using ih4 n(2) by fastforce
    ultimately show ?thesis
      unfolding eq using ih1 ih2 ih3 ih5 n(2) by simp
  next
    fix sent
    assume s: "rep = Called sent" "call_id p1 = call_id p + 1"
      and f: "\<forall>j. sent = Some j \<longrightarrow> field ''id'' j = Some (JInt (call_id p + 1))"
    have made: "calls_made (rep # reps) = Suc (calls_made reps)" using s by simp
    have above: "\<forall>k \<in> set (sent_ids reps). call_id p + 1 < k \<and> call_id p < k \<and> k \<le> call_id p2"
      using ih4 s(2) by fastforce
    have final: "call_id p + 1 \<le> call_id p2" using ih1 s(2) by simp
    show ?thesis
    proof (cases sent)
      case None
      have "sent_ids (rep # reps) = sent_ids reps" "envelopes (rep # reps) = envelopes reps"
        using s None by simp_all
      then show ?thesis
        unfolding eq using ih1 ih2 ih3 ih5 s(2) made above by simp
    next
      case (Some j)
      have "field ''id'' j = Some (JInt (call_id p + 1))" using f Some by simp
      then have "sent_ids (rep # reps) = (call_id p + 1) # sent_ids reps"
        "envelopes (rep # reps) = j # envelopes reps"
        using s Some by simp_all
      then show ?thesis
        unfolding eq using ih1 ih2 ih3 ih5 s(2) made above final by simp
    qed
  qed
qed

text \<open>
  Claim C9, as amended. The call identifier of a new proxy is 0. Looking a method up
  does not change it, whether the description is fetched or not, and whether the fetch
  succeeds or not; when the fetch raises, the invocation raises with it and nothing is
  called. Every \<open>call_method\<close>, whatever its arguments and whatever the
  transport does, leaves it one higher, and the envelope it hands to the transport is the
  one that carries the new value. So over any sequence of invocations on one proxy,
  returning or raising, the identifier grows by the number of invocations that reached
  \<open>call_method\<close> (an invocation whose lookup raises makes no call), every envelope that
  went out carries an integer id, and these ids are strictly increasing and lie above the
  starting value, up to the final one.
\<close>

theorem call_id_increases:
  "call_id (ServiceProxy url) = 0
   \<and> call_id (snd (getattr p attr urlopen)) = call_id p
   \<and> call_id (fst (snd (call_method p method_name params post))) = call_id p + 1
   \<and> (dumps method_name = Some jm \<and> dumps params = Some jp \<longrightarrow>
        call_method p method_name params post =
          (case post (service_url p)
                  (JObj [(''method'', jm), (''params'', jp), (''id'', JInt (call_id p + 1))]) of
             Raises exc \<Rightarrow> Inl (Raised exc)
           | Returns data \<Rightarrow> from_json data,
           p\<lparr> call_id := call_id p + 1 \<rparr>,
           Some (JObj [(''method'', jm), (''params'', jp), (''id'', JInt (call_id p + 1))])))
   \<and> (fst (getattr p attr urlopen) = Inl e \<longrightarrow>
        attr_call str p attr args urlopen post = (Inl e, snd (getattr p attr urlopen), Not_called))
   \<and> (invoke_all str p invocations = (p', reports) \<longrightarrow>
        call_id p' = call_id p + int (calls_made reports) \<and> length reports = length invocations
        \<and> sorted_wrt (<) (sent_ids reports)
        \<and> (\<forall>k \<in> set (sent_ids reports). call_id p < k \<and> k \<le> call_id p')
        \<and> length (sent_ids reports) = length (envelopes reports))"
proof (intro conjI impI)
  show "call_id (ServiceProxy url) = 0" by (simp add: ServiceProxy_def)
  show "call_id (snd (getattr p attr urlopen)) = call_id p" by (rule getattr_call_id)
  show "call_id (fst (snd (call_method p method_name params post))) = call_id p + 1"
    using call_method_call_id(1) [of p method_name params post]
    by (cases "call_method p method_name params post") simp
next
  assume "dumps method_name = Some jm \<and> dumps params = Some jp"
  then show "call_method p method_name params post =
          (case post (service_url p)
                  (JObj [(''method'', jm), (''params'', jp), (''id'', JInt (call_id p + 1))]) of
             Raises exc \<Rightarrow> Inl (Raised exc)
           | Returns data \<Rightarrow> from_json data,
           p\<lparr> call_id := call_id p + 1 \<rparr>,
           Some (JObj [(''method'', jm), (''params'', jp), (''id'', JInt (call_id p + 1))]))"
    by (simp add: call_method_sends)
next
  assume "fst (getattr p attr urlopen) = Inl e"
  then show "attr_call str p attr args urlopen post = (Inl e, snd (getattr p attr urlopen), Not_called)"
    by (cases "getattr p attr urlopen") (simp add: attr_call_def)
next
  assume i: "invoke_all str p invocations = (p', reports)"
  note t = invoke_all_call_ids [OF i]
  show "call_id p' = call_id p + int (calls_made reports)" using t by blast
  show "length reports = length invocations" using t by blast
  show "sorted_wrt (<) (sent_ids reports)" using t by blast
  show "\<forall>k \<in> set (sent_ids reports). call_id p < k \<and> k \<le> call_id p'" using t by blast
  show "length (sent_ids reports) = length (envelopes reports)" using t by blast
qed

lemma three_calls_run:
  "invoke_all no_str (ServiceProxy ''http://host/rpc'') three_calls
     = ((ServiceProxy ''http://host/rpc'')
          \<lparr> smd := loads smd_document, proxy_methods := [PStr ''add''], call_id := 3 \<rparr>,
        [Called (Some (call_envelope ''add'' (JArr [JInt 2, JInt 3]) 1)),
         Called (Some (call_envelope ''add'' (JArr [JInt 4, JInt 5]) 2)),
         Called (Some (call_envelope ''missing'' (JArr []) 3))])"
  by (simp add: three_calls_def attr_call_def getattr_def proxy_get_smd_def describes_def
        smd_document_def smd_entry_def unwrap_def
        wrapped_def call_method_def Let_def to_json_def replies_def refuses_def
        from_json_def simplejson_loads_def ServiceProxy_def call_envelope_def
        success_envelope_def error_envelope_def)

lemma three_unreachable_run:
  "invoke_all no_str (ServiceProxy ''http://host/rpc'') three_unreachable
     = (ServiceProxy ''http://host/rpc'', [Not_called, Not_called, Not_called])"
  by (simp add: three_unreachable_def attr_call_def getattr_def proxy_get_smd_def unreachable_def
        ServiceProxy_def)

text \<open>
  Three invocations on a new proxy, the first of which fetches the description and the
  second of which fails in the transport: all three reach \<open>call_method\<close>, the identifier
  ends at 3 and the three envelopes carry the ids 1, 2 and 3.
\<close>

theorem call_id_increases_witness:
  "call_id (ServiceProxy ''http://host/rpc'') = 0
   \<and> call_id (snd (getattr (ServiceProxy ''http://host/rpc'') ''add'' unreachable)) = 0
   \<and> call_id (fst (snd (call_method (ServiceProxy ''http://host/rpc'') (PStr ''add'')
                              (PTuple [PObj 0]) refuses))) = 1
   \<and> dumps (PStr ''add'') = Some (JStr ''add'')
   \<and> dumps (PTuple [PInt 4, PInt 5]) = Some (JArr [JInt 4, JInt 5])
   \<and> call_method (ServiceProxy ''http://host/rpc'') (PStr ''add'') (PTuple [PInt 4, PInt 5]) refuses
       = (Inl (Raised (Exc True ''URLError''
                        (Inr (Text ''<urlopen error [Errno 111] Connection refused>'')))),
          (ServiceProxy ''http://host/rpc'')\<lparr> call_id := 1 \<rparr>,
          Some (call_envelope ''add'' (JArr [JInt 4, JInt 5]) 1))
   \<and> fst (getattr (ServiceProxy ''http://host/rpc'') ''add'' unreachable)
       = Inl (Raised (Exc True ''URLError''
                       (Inr (Text ''<urlopen error [Errno 111] Connection refused>''))))
   \<and> attr_call no_str (ServiceProxy ''http://host/rpc'') ''add'' [PInt 4, PInt 5] unreachable refuses
       = (Inl (Raised (Exc True ''URLError''
                        (Inr (Text ''<urlopen error [Errno 111] Connection refused>'')))),
          ServiceProxy ''http://host/rpc'', Not_called)
   \<and> invoke_all no_str (ServiceProxy ''http://host/rpc'') three_calls
       = ((ServiceProxy ''http://host/rpc'')
            \<lparr> smd := loads smd_document, proxy_methods := [PStr ''add''], call_id := 3 \<rparr>,
          [Called (Some (call_envelope ''add'' (JArr [JInt 2, JInt 3]) 1)),
           Called (Some (call_envelope ''add'' (JArr [JInt 4, JInt 5]) 2)),
           Called (Some (call_envelope ''missing'' (JArr []) 3))])
   \<and> call_id ((ServiceProxy ''http://host/rpc'')
                \<lparr> smd := loads smd_document, proxy_methods := [PStr ''add''], call_id := 3 \<rparr>) = 3
   \<and> calls_made [Called (Some (call_envelope ''add'' (JArr [JInt 2, JInt 3]) 1)),
                  Called (Some (call_envelope ''add'' (JArr [JInt 4, JInt 5]) 2)),
                  Called (Some (call_envelope ''missing'' (JArr []) 3))] = 3
   \<and> sent_ids [Called (Some (call_envelope ''add'' (JArr [JInt 2, JInt 3]) 1)),
                Called (Some (call_envelope ''add'' (JArr [JInt 4, JInt 5]) 2)),
                Called (Some (call_envelope ''missing'' (JArr []) 3))] = [1, 2, 3]"
proof -
  have d: "dumps (PStr ''add'') = Some (JStr ''add'')"
    "dumps (PTuple [PInt 4, PInt 5]) = Some (JArr [JInt 4, JInt 5])"
    by simp_all
  note t = call_id_increases
    [where url = "''http://host/rpc''" and p = "ServiceProxy ''http://host/rpc''" and attr = "''add''"
       and urlopen = unreachable and method_name = "PStr ''add''" and params = "PTuple [PInt 4, PInt 5]"
       and post = refuses and jm = "JStr ''add''" and jp = "JArr [JInt 4, JInt 5]"
       and e = "Raised (Exc True ''URLError''
                         (Inr (Text ''<urlopen error [Errno 111] Connection refused>'')))"
       and args = "[PInt 4, PInt 5]"
       and str = no_str and invocations = three_calls
       and p' = "(ServiceProxy ''http://host/rpc'')
                   \<lparr> smd := loads smd_document, proxy_methods := [PStr ''add''], call_id := 3 \<rparr>"
       and reports = "[Called (Some (call_envelope ''add'' (JArr [JInt 2, JInt 3]) 1)),
                       Called (Some (call_envelope ''add'' (JArr [JInt 4, JInt 5]) 2)),
                       Called (Some (call_envelope ''missing'' (JArr []) 3))]"]
  have c: "call_method (ServiceProxy ''http://host/rpc'') (PStr ''add'') (PTuple [PInt 4, PInt 5]) refuses
       = (Inl (Raised (Exc True ''URLError''
                        (Inr (Text ''<urlopen error [Errno 111] Connection refused>'')))),
          (ServiceProxy ''http://host/rpc'')\<lparr> call_id := 1 \<rparr>,
          Some (call_envelope ''add'' (JArr [JInt 4, JInt 5]) 1))"
    using t d by (simp add: refuses_def call_envelope_def ServiceProxy_def)
  have g: "call_id (snd (getattr (ServiceProxy ''http://host/rpc'') ''add'' unreachable)) = 0"
    using t by (simp add: ServiceProxy_def)
  have ga: "getattr (ServiceProxy ''http://host/rpc'') ''add'' unreachable
       = (Inl (Raised (Exc True ''URLError''
                        (Inr (Text ''<urlopen error [Errno 111] Connection refused>'')))),
          ServiceProxy ''http://host/rpc'')"
    by (simp add: getattr_def proxy_get_smd_def unreachable_def ServiceProxy_def)
  have a: "attr_call no_str (ServiceProxy ''http://host/rpc'') ''add'' [PInt 4, PInt 5] unreachable refuses
       = (Inl (Raised (Exc True ''URLError''
                        (Inr (Text ''<urlopen error [Errno 111] Connection refused>'')))),
          ServiceProxy ''http://host/rpc'', Not_called)"
    using t ga by simp
  have o: "call_id (fst (snd (call_method (ServiceProxy ''http://host/rpc'') (PStr ''add'')
                              (PTuple [PObj 0]) refuses))) = 1"
    using call_id_increases
      [where p = "ServiceProxy ''http://host/rpc''" and method_name = "PStr ''add''"
         and params = "PTuple [PObj 0]" and post = refuses]
    by (simp add: ServiceProxy_def)
  show ?thesis
    using c g o d a ga three_calls_run
    by (simp add: field_def call_envelope_def ServiceProxy_def)
qed

text \<open>
  Claim C9 as stated fails: an invocation through the proxy begins with the lookup of
  the name, which fetches the description, and when that fetch fails nothing is called.
  After three such invocations on a new proxy the identifier is still 0, not 3.
\<close>

theorem call_id_increases_counterexample:
  "invoke_all no_str (ServiceProxy ''http://host/rpc'') three_unreachable
     = (ServiceProxy ''http://host/rpc'', [Not_called, Not_called, Not_called])
   \<and> call_id (ServiceProxy ''http://host/rpc'') = 0"
  using three_unreachable_run by (simp add: ServiceProxy_def)

section \<open>The dispatcher: a registered value that tests false\<close>

text \<open>
  Claim C10. If the value registered under a name tests false (\<open>None\<close>, say), then
  \<open>get_method\<close> returns that value, and every well-formed, authorized request naming it
  is answered exactly as if the name were not registered: by the error envelope with
  code 100 and the message \<open>method "<name>" does not exist\<close>.
\<close>

theorem falsy_registered_value:
  assumes "well_formed request jid name jparams"
    and "authorized str svc request name jparams"
    and "map_of (methods svc) name = Some m"
    and "\<not> is_true m"
  shows "get_method svc (PStr name) = Inr m
       \<and> process_request str svc request
           = Inr (error_envelope jid (''method \"'' @ name @ ''\" does not exist''))
       \<and> process_request str svc request
           = process_request str (svc\<lparr> methods := AList.delete name (methods svc) \<rparr>) request"
proof -
  let ?svc' = "svc\<lparr> methods := AList.delete name (methods svc) \<rparr>"
  have gm: "get_method svc (PStr name) = Inr m"
    by (rule get_method_registered) (rule assms(3))
  have a: "process_request str svc request
           = Inr (error_envelope jid (''method \"'' @ name @ ''\" does not exist''))"
    using assms(4) by (simp add: process_request_authorized [OF assms(1,2) gm])
  have au': "authorized str ?svc' request name jparams"
    using assms(2) by (simp add: authorized_def)
  have gm': "get_method ?svc' (PStr name) = Inr py_None"
    by (rule get_method_unregistered) (simp add: delete_conv')
  have b: "process_request str ?svc' request
           = Inr (error_envelope jid (''method \"'' @ name @ ''\" does not exist''))"
    by (simp add: process_request_authorized [OF assms(1) au' gm'] py_None_def)
  show ?thesis using gm a b by simp
qed

theorem falsy_registered_value_witness:
  "well_formed add_request (JInt 1) ''add'' (JArr [JInt 2, JInt 3])
   \<and> authorized no_str (add_method (ServiceBase None False) ''add'' py_None) add_request ''add''
        (JArr [JInt 2, JInt 3])
   \<and> map_of (methods (add_method (ServiceBase None False) ''add'' py_None)) ''add'' = Some py_None
   \<and> \<not> is_true py_None
   \<and> get_method (add_method (ServiceBase None False) ''add'' py_None) (PStr ''add'') = Inr py_None
   \<and> process_request no_str (add_method (ServiceBase None False) ''add'' py_None) add_request
       = Inr (error_envelope (JInt 1) ''method \"add\" does not exist'')
   \<and> process_request no_str (add_method (ServiceBase None False) ''add'' py_None) add_request
       = process_request no_str (ServiceBase None False) add_request"
proof -
  let ?svc = "add_method (ServiceBase None False) ''add'' py_None"
  have h1: "well_formed add_request (JInt 1) ''add'' (JArr [JInt 2, JInt 3])"
    by (rule add_request_well_formed)
  have h2: "authorized no_str ?svc add_request ''add'' (JArr [JInt 2, JInt 3])"
    by (rule no_hook_authorized) simp
  have h3: "map_of (methods ?svc) ''add'' = Some py_None" by simp
  have h4: "\<not> is_true py_None" by (simp add: py_None_def)
  have d: "?svc\<lparr> methods := AList.delete ''add'' (methods ?svc) \<rparr> = ServiceBase None False"
    by (simp add: add_method_def ServiceBase_def)
  note t = falsy_registered_value [OF h1 h2 h3 h4, unfolded d]
  have t1: "get_method ?svc (PStr ''add'') = Inr py_None"
    using t by simp
  have t2: "process_request no_str ?svc add_request
              = Inr (error_envelope (JInt 1) ''method \"add\" does not exist'')"
    using t by simp
  have t3: "process_request no_str ?svc add_request
              = process_request no_str (ServiceBase None False) add_request"
    using t by blast
  show ?thesis
    using h1 h2 h3 h4 t1 t2 t3 by blast
qed

end
